theory Spec2Isabelle
  imports Complex_Main
begin

section \<open>Values, exceptions and the outside world\<close>

text \<open>
  The evaluation script \<^verbatim>\<open>scripts/evaluate.py\<close> works on values parsed from JSON. A parsed
  value is a \<open>json\<close>; a Python \<^verbatim>\<open>dict\<close> is an association list in insertion order, looked
  up by its first matching key. A float is represented by the exact rational value of the
  (finite) double.
\<close>

datatype json =
    JNull
  | JBool bool
  | JInt int
  | JFloat rat
  | JStr string
  | JList "json list"
  | JDict "(string \<times> json) list"

text \<open>
  A raised exception is a value: its class and \<^verbatim>\<open>str(e)\<close>. A computation that may raise
  returns \<open>py_exception + 'a\<close> with \<open>Inl\<close> the exception.
\<close>

datatype exc_kind =
    ValueError | KeyError | TypeError | IndexError | ZeroDivisionError | OverflowError
  | FileNotFoundError | JSONDecodeError | RequestException | ExternalError

datatype py_exception = Raise exc_kind string

fun str_exc :: "py_exception \<Rightarrow> string" where
  "str_exc (Raise k m) = m"

fun exc_kind_of :: "py_exception \<Rightarrow> exc_kind" where
  "exc_kind_of (Raise k m) = k"

text \<open>
  What \<^verbatim>\<open>requests.post(...)\<close> followed by \<^verbatim>\<open>r.json()\<close> can do: the request raises, the
  body is not JSON (\<^verbatim>\<open>r.json()\<close> raises), or the body parses to a value.
\<close>

datatype http_reply =
    RequestFails string
  | BodyNotJson string
  | JsonBody json

datatype event =
    OpenRead string
  | OpenWrite string
  | HttpPost json json
  | FileWrite string string
  | GradingCall "json list" string

record target_response =
  question :: string
  answer :: json
  context_str :: string

record eval_result =
  metrics_summary :: "(string \<times> rat) list"
  artifacts :: "(string \<times> string) list"

text \<open>
  The program's mutable surroundings: the files (text contents as \<^verbatim>\<open>read()\<close> returns them,
  \<open>None\<close> for a file that does not exist), how often the clock was read, and the trace of
  the program's own actions, oldest first. A file is keyed by the name \<open>locate\<close> gives to
  a path, see below.
\<close>

record world =
  files :: "string \<Rightarrow> string option"
  ticks :: nat
  trace :: "event list"

text \<open>
  The library calls the script depends on and does not define are parameters: the clock
  (\<^verbatim>\<open>int(time.time())\<close> at the n-th reading), the target behind \<^verbatim>\<open>requests.post\<close>,
  \<^verbatim>\<open>json.loads\<close>, \<^verbatim>\<open>json.dumps(_, indent=4)\<close>, \<^verbatim>\<open>repr\<close> of a parsed value, \<^verbatim>\<open>int\<close> on a
  \<^verbatim>\<open>str\<close>, the grading call \<^verbatim>\<open>evaluate\<close> (it may rewrite files) and
  \<^verbatim>\<open>service_setup.get_openai_config\<close>. \<open>locate\<close> is the operating system's resolution of
  a path string to the file it leads to (current directory, \<^verbatim>\<open>..\<close>, links): two paths are
  the same file exactly when \<open>locate\<close> gives them the same name.
\<close>

record env =
  clock :: "nat \<Rightarrow> int"
  post :: "json \<Rightarrow> json \<Rightarrow> http_reply"
  json_loads :: "string \<Rightarrow> py_exception + json"
  json_dumps :: "json \<Rightarrow> string"
  py_repr :: "json \<Rightarrow> string"
  int_of_str :: "string \<Rightarrow> py_exception + int"
  evaluate ::
    "(string \<Rightarrow> py_exception + target_response) \<Rightarrow> json list \<Rightarrow> json \<Rightarrow> string
      \<Rightarrow> (string \<Rightarrow> string option)
      \<Rightarrow> (py_exception + eval_result) \<times> (string \<Rightarrow> string option)"
  get_openai_config :: "py_exception + json"
  locate :: "string \<Rightarrow> string"

type_synonym 'a prog = "world \<Rightarrow> (py_exception + 'a) \<times> world"

definition returnP :: "'a \<Rightarrow> 'a prog" where
  "returnP x w = (Inr x, w)"

definition raiseP :: "py_exception \<Rightarrow> 'a prog" where
  "raiseP e w = (Inl e, w)"

definition bindP :: "'a prog \<Rightarrow> ('a \<Rightarrow> 'b prog) \<Rightarrow> 'b prog" where
  "bindP m f w = (case m w of (Inl e, w') \<Rightarrow> (Inl e, w') | (Inr x, w') \<Rightarrow> f x w')"

definition liftP :: "py_exception + 'a \<Rightarrow> 'a prog" where
  "liftP r w = (r, w)"

definition log_event :: "event \<Rightarrow> unit prog" where
  "log_event ev w = (Inr (), w\<lparr>trace := trace w @ [ev]\<rparr>)"

subsection \<open>Subscripting and joining\<close>

fun lookup :: "(string \<times> json) list \<Rightarrow> string \<Rightarrow> json option" where
  "lookup [] k = None"
| "lookup ((k', v) # kvs) k = (if k' = k then Some v else lookup kvs k)"

text \<open>\<^verbatim>\<open>obj[key]\<close> with a string key: only a dict has one.\<close>

fun getitem :: "json \<Rightarrow> string \<Rightarrow> py_exception + json" where
  "getitem (JDict kvs) k =
     (case lookup kvs k of None \<Rightarrow> Inl (Raise KeyError k) | Some v \<Rightarrow> Inr v)"
| "getitem v k = Inl (Raise TypeError ''subscript'')"

text \<open>
  \<^verbatim>\<open>obj[0]\<close>: the first element of a list, the first character of a string; a dict parsed
  from JSON has string keys only, so the key 0 is missing.
\<close>

fun getitem0 :: "json \<Rightarrow> py_exception + json" where
  "getitem0 (JList []) = Inl (Raise IndexError ''list index out of range'')"
| "getitem0 (JList (x # xs)) = Inr x"
| "getitem0 (JStr []) = Inl (Raise IndexError ''string index out of range'')"
| "getitem0 (JStr (c # cs)) = Inr (JStr [c])"
| "getitem0 (JDict kvs) = Inl (Raise KeyError ''0'')"
| "getitem0 v = Inl (Raise TypeError ''subscript'')"

fun join :: "string \<Rightarrow> string list \<Rightarrow> string" where
  "join sep [] = []"
| "join sep [x] = x"
| "join sep (x # y # ys) = x @ sep @ join sep (y # ys)"

fun all_strs :: "json list \<Rightarrow> string list option" where
  "all_strs [] = Some []"
| "all_strs (JStr s # vs) = (case all_strs vs of None \<Rightarrow> None | Some ss \<Rightarrow> Some (s # ss))"
| "all_strs (v # vs) = None"

text \<open>
  \<^verbatim>\<open>sep.join(v)\<close> iterates \<open>v\<close>: the elements of a list (each must be a string), the
  characters of a string, the keys of a dict.
\<close>

fun join_value :: "string \<Rightarrow> json \<Rightarrow> py_exception + string" where
  "join_value sep (JList vs) =
     (case all_strs vs of None \<Rightarrow> Inl (Raise TypeError ''join'') | Some ss \<Rightarrow> Inr (join sep ss))"
| "join_value sep (JStr s) = Inr (join sep (map (\<lambda>c. [c]) s))"
| "join_value sep (JDict kvs) = Inr (join sep (map fst kvs))"
| "join_value sep v = Inl (Raise TypeError ''join'')"

definition bindE :: "py_exception + 'a \<Rightarrow> ('a \<Rightarrow> py_exception + 'b) \<Rightarrow> py_exception + 'b" where
  "bindE r f = (case r of Inl e \<Rightarrow> Inl e | Inr x \<Rightarrow> f x)"

section \<open>The target invoker\<close>

definition newline :: char where
  "newline = CHR 0x0A"

definition request_body :: "string \<Rightarrow> json \<Rightarrow> json" where
  "request_body q parameters =
     JDict [(''messages'', JList [JDict [(''content'', JStr q), (''role'', JStr ''user'')]]),
            (''stream'', JBool False),
            (''context'', parameters)]"

text \<open>The inner \<^verbatim>\<open>try\<close> block: the answer, then the data points, then the join.\<close>

definition extract_answer_context :: "json \<Rightarrow> py_exception + (json \<times> string)" where
  "extract_answer_context response_dict =
     bindE (getitem response_dict ''choices'') (\<lambda>choices.
     bindE (getitem0 choices) (\<lambda>choice.
     bindE (getitem choice ''message'') (\<lambda>message.
     bindE (getitem message ''content'') (\<lambda>answer.
     bindE (getitem response_dict ''choices'') (\<lambda>choices'.
     bindE (getitem0 choices') (\<lambda>choice'.
     bindE (getitem choice' ''context'') (\<lambda>ctx.
     bindE (getitem ctx ''data_points'') (\<lambda>dp.
     bindE (getitem dp ''text'') (\<lambda>data_points.
     bindE (join_value [newline, newline] data_points) (\<lambda>joined.
     Inr (answer, joined)))))))))))"

definition schema_error :: "env \<Rightarrow> json \<Rightarrow> py_exception" where
  "schema_error en response_dict =
     Raise ValueError
       (''Response does not adhere to the expected schema. '' @
        ''Either adjust the app response or adjust send_question_to_target() in evaluate.py '' @
        ''to match the actual schema.'' @ [newline] @ ''Response: '' @ py_repr en response_dict)"

text \<open>The outer \<^verbatim>\<open>try\<close> block, before the handler: the request, the parse, the extraction.\<close>

definition ask_target :: "env \<Rightarrow> string \<Rightarrow> json \<Rightarrow> json \<Rightarrow> py_exception + target_response" where
  "ask_target en q target_url parameters =
     (case post en target_url (request_body q parameters) of
        RequestFails m \<Rightarrow> Inl (Raise RequestException m)
      | BodyNotJson m \<Rightarrow> Inl (Raise JSONDecodeError m)
      | JsonBody response_dict \<Rightarrow>
          (case extract_answer_context response_dict of
             Inl e \<Rightarrow> Inl (schema_error en response_dict)
           | Inr (a, c) \<Rightarrow> Inr \<lparr>question = q, answer = a, context_str = c\<rparr>))"

definition send_question_to_target ::
  "env \<Rightarrow> string \<Rightarrow> json \<Rightarrow> json \<Rightarrow> bool \<Rightarrow> target_response prog" where
  "send_question_to_target en q target_url parameters raise_error =
     bindP (log_event (HttpPost target_url (request_body q parameters))) (\<lambda>_.
       case ask_target en q target_url parameters of
         Inr r \<Rightarrow> returnP r
       | Inl e \<Rightarrow>
           if raise_error then raiseP e
           else returnP \<lparr>question = q, answer = JStr (str_exc e), context_str = str_exc e\<rparr>)"

section \<open>Strings\<close>

text \<open>\<^verbatim>\<open>s.startswith(p)\<close>, \<^verbatim>\<open>p in s\<close> and \<^verbatim>\<open>s.replace(old, new)\<close> on strings.\<close>

fun startswith :: "string \<Rightarrow> string \<Rightarrow> bool" where
  "startswith s [] = True"
| "startswith [] (p # ps) = False"
| "startswith (c # cs) (p # ps) = (c = p \<and> startswith cs ps)"

fun str_contains :: "string \<Rightarrow> string \<Rightarrow> bool" where
  "str_contains [] p = (p = [])"
| "str_contains (c # cs) p = (startswith (c # cs) p \<or> str_contains cs p)"

text \<open>
  \<^verbatim>\<open>str.replace\<close> scans from the left and replaces non-overlapping occurrences; with an
  empty \<open>old\<close> it puts \<open>new\<close> before every character and at the end.
\<close>

function str_replace :: "string \<Rightarrow> string \<Rightarrow> string \<Rightarrow> string" where
  "str_replace [] old new = (if old = [] then new else [])"
| "str_replace (c # cs) old new =
     (if old = [] then new @ concat (map (\<lambda>x. x # new) (c # cs))
      else if startswith (c # cs) old
           then new @ str_replace (drop (length old) (c # cs)) old new
           else c # str_replace cs old new)"
  by pat_completeness auto
termination
  by (relation "measure (\<lambda>(s, old, new). length s)") auto

text \<open>\<^verbatim>\<open>str(n)\<close> for an integer: decimal digits, with a minus sign when negative.\<close>

definition digit_char :: "nat \<Rightarrow> char" where
  "digit_char d = ''0123456789'' ! d"

function digits :: "nat \<Rightarrow> string" where
  "digits n = (if n < 10 then [digit_char n] else digits (n div 10) @ [digit_char (n mod 10)])"
  by pat_completeness auto
termination
  by (relation "measure (\<lambda>n. n)") auto

declare digits.simps [simp del]

definition str_int :: "int \<Rightarrow> string" where
  "str_int i = (if i < 0 then CHR ''-'' # digits (nat (- i)) else digits (nat i))"

section \<open>The config materializer\<close>

text \<open>
  Files. \<^verbatim>\<open>open(path)\<close> raises when the path does not exist; \<^verbatim>\<open>open(path, "w")\<close> creates
  or empties the file (directories are not modelled: it always succeeds); reading and
  writing act on the contents at that moment.
\<close>

definition open_r :: "env \<Rightarrow> string \<Rightarrow> unit prog" where
  "open_r en path w =
     (case files w (locate en path) of
        None \<Rightarrow>
          (Inl (Raise FileNotFoundError
                 (''[Errno 2] No such file or directory: '' @ [CHR 0x27] @ path @ [CHR 0x27])),
           w\<lparr>trace := trace w @ [OpenRead path]\<rparr>)
      | Some text \<Rightarrow> (Inr (), w\<lparr>trace := trace w @ [OpenRead path]\<rparr>))"

definition read_all :: "env \<Rightarrow> string \<Rightarrow> string prog" where
  "read_all en path w =
     (Inr (case files w (locate en path) of None \<Rightarrow> [] | Some text \<Rightarrow> text), w)"

definition open_read :: "env \<Rightarrow> string \<Rightarrow> string prog" where
  "open_read en path = bindP (open_r en path) (\<lambda>_. read_all en path)"

definition open_w :: "env \<Rightarrow> string \<Rightarrow> unit prog" where
  "open_w en path w =
     (Inr (), w\<lparr>files := (files w)(locate en path \<mapsto> []),
               trace := trace w @ [OpenWrite path]\<rparr>)"

definition write_all :: "env \<Rightarrow> string \<Rightarrow> string \<Rightarrow> unit prog" where
  "write_all en path text w =
     (Inr (), w\<lparr>files := (files w)(locate en path \<mapsto> text),
               trace := trace w @ [FileWrite path text]\<rparr>)"

text \<open>
  Paths are \<^verbatim>\<open>pathlib\<close> paths of the POSIX flavour, kept as the string \<^verbatim>\<open>str(path)\<close>. A path
  string is cut at the slashes; empty components and \<^verbatim>\<open>.\<close> components are dropped, \<^verbatim>\<open>..\<close> is
  kept; the root is \<^verbatim>\<open>/\<close>, or \<^verbatim>\<open>//\<close> for exactly two leading slashes. The empty path prints
  as \<^verbatim>\<open>.\<close>.
\<close>

fun split_on :: "char \<Rightarrow> string \<Rightarrow> string \<Rightarrow> string list" where
  "split_on sep cur [] = [cur]"
| "split_on sep cur (c # cs) =
     (if c = sep then cur # split_on sep [] cs else split_on sep (cur @ [c]) cs)"

definition path_parts :: "string \<Rightarrow> string list" where
  "path_parts s = filter (\<lambda>p. p \<noteq> [] \<and> p \<noteq> ''.'') (split_on (CHR ''/'') [] s)"

definition path_root :: "string \<Rightarrow> string" where
  "path_root s =
     (if startswith s ''//'' \<and> \<not> startswith s ''///'' then ''//''
      else if startswith s ''/'' then ''/'' else [])"

definition path_str :: "string \<Rightarrow> string list \<Rightarrow> string" where
  "path_str anchor parts =
     (if anchor = [] \<and> parts = [] then ''.'' else anchor @ join ''/'' parts)"

text \<open>\<^verbatim>\<open>Path(a) / b\<close>: an absolute \<open>b\<close> replaces \<open>a\<close>; otherwise the components of \<open>b\<close> follow
  those of \<open>a\<close>.\<close>

definition joinpath :: "string \<Rightarrow> string \<Rightarrow> string" where
  "joinpath a b =
     (if startswith b ''/'' then path_str (path_root b) (path_parts b)
      else path_str (path_root a) (path_parts a @ path_parts b))"

text \<open>\<^verbatim>\<open>int(time.time())\<close>: one reading of the clock.\<close>

definition now :: "env \<Rightarrow> int prog" where
  "now en w = (Inr (clock en (ticks w)), w\<lparr>ticks := Suc (ticks w)\<rparr>)"

definition TIMESTAMP :: string where
  "TIMESTAMP = ''<TIMESTAMP>''"

definition READFILE :: string where
  "READFILE = ''<READFILE>''"

text \<open>The two \<^verbatim>\<open>elif\<close> branches of \<^verbatim>\<open>process_config\<close> for a string value \<^verbatim>\<open>obj[key]\<close>.\<close>

definition process_str :: "env \<Rightarrow> string \<Rightarrow> json prog" where
  "process_str en s =
     (if str_contains s TIMESTAMP then
        bindP (now en) (\<lambda>t. returnP (JStr (str_replace s TIMESTAMP (str_int t))))
      else if str_contains s READFILE then
        bindP (open_read en (str_replace s READFILE [])) (\<lambda>text. returnP (JStr text))
      else returnP (JStr s))"

text \<open>
  \<^verbatim>\<open>process_config\<close> changes the dict in place and returns nothing; here it returns the
  changed value. \<open>process_items\<close> is its \<^verbatim>\<open>for key in obj\<close> loop, in key order, and
  \<open>process_value\<close> the \<^verbatim>\<open>if\<close>/\<^verbatim>\<open>elif\<close> chain on \<^verbatim>\<open>obj[key]\<close>.
\<close>

fun process_config :: "env \<Rightarrow> json \<Rightarrow> world \<Rightarrow> (py_exception + json) \<times> world"
  and process_value :: "env \<Rightarrow> json \<Rightarrow> world \<Rightarrow> (py_exception + json) \<times> world"
  and process_items ::
    "env \<Rightarrow> (string \<times> json) list \<Rightarrow> world \<Rightarrow> (py_exception + (string \<times> json) list) \<times> world"
where
  "process_config en (JDict kvs) w =
     (case process_items en kvs w of
        (Inl e, w') \<Rightarrow> (Inl e, w')
      | (Inr kvs', w') \<Rightarrow> (Inr (JDict kvs'), w'))"
| "process_config en v w = (Inr v, w)"
| "process_value en (JDict d) w = process_config en (JDict d) w"
| "process_value en (JStr s) w = process_str en s w"
| "process_value en v w = (Inr v, w)"
| "process_items en [] w = (Inr [], w)"
| "process_items en ((key, v) # rest) w =
     (case process_value en v w of
        (Inl e, w') \<Rightarrow> (Inl e, w')
      | (Inr v', w') \<Rightarrow>
          (case process_items en rest w' of
             (Inl e, w'') \<Rightarrow> (Inl e, w'')
           | (Inr rest', w'') \<Rightarrow> (Inr ((key, v') # rest'), w'')))"

subsection \<open>Notions used to state the materializer's properties\<close>

text \<open>The value reached from a mapping by a sequence of keys.\<close>

fun value_at :: "json \<Rightarrow> string list \<Rightarrow> json option" where
  "value_at v [] = Some v"
| "value_at (JDict kvs) (k # ks) =
     (case lookup kvs k of None \<Rightarrow> None | Some v \<Rightarrow> value_at v ks)"
| "value_at v (k # ks) = None"

text \<open>A nested mapping whose values are strings or such mappings.\<close>

fun config_shape :: "json \<Rightarrow> bool" where
  "config_shape (JStr s) = True"
| "config_shape (JDict kvs) = (\<forall>kv \<in> set kvs. config_shape (snd kv))"
| "config_shape v = False"

text \<open>No string anywhere in the value contains one of the two markers.\<close>

fun marker_free :: "json \<Rightarrow> bool" where
  "marker_free (JStr s) = (\<not> str_contains s TIMESTAMP \<and> \<not> str_contains s READFILE)"
| "marker_free (JDict kvs) = (\<forall>kv \<in> set kvs. marker_free (snd kv))"
| "marker_free (JList vs) = (\<forall>v \<in> set vs. marker_free v)"
| "marker_free v = True"

text \<open>No string value of the mapping contains both markers.\<close>

fun no_value_with_both :: "json \<Rightarrow> bool" where
  "no_value_with_both (JStr s) = (\<not> (str_contains s TIMESTAMP \<and> str_contains s READFILE))"
| "no_value_with_both (JDict kvs) = (\<forall>kv \<in> set kvs. no_value_with_both (snd kv))"
| "no_value_with_both v = True"

text \<open>
  The paths named by the values that contain the file marker and not the timestamp
  marker, in the order the loop meets them.
\<close>

fun read_paths :: "json \<Rightarrow> string list" where
  "read_paths (JStr s) =
     (if \<not> str_contains s TIMESTAMP \<and> str_contains s READFILE
      then [str_replace s READFILE []] else [])"
| "read_paths (JDict kvs) = concat (map (\<lambda>kv. read_paths (snd kv)) kvs)"
| "read_paths v = []"

text \<open>The files at these paths, where they exist, hold neither marker.\<close>

definition clean_files :: "(string \<rightharpoonup> string) \<Rightarrow> string list \<Rightarrow> bool" where
  "clean_files fs ps =
     (\<forall>p \<in> set ps. case fs p of
                       None \<Rightarrow> True
                     | Some body \<Rightarrow> \<not> str_contains body TIMESTAMP \<and> \<not> str_contains body READFILE)"

section \<open>Floats\<close>

text \<open>
  A Python float is a binary64 number, here the rational it denotes (NaN and the
  infinities are left out). \<open>to_double\<close> is the rounding every float operation ends with:
  the nearest binary64 value, ties to the even significand, with the subnormal range at
  the bottom.
\<close>

definition round_half_even :: "rat \<Rightarrow> int" where
  "round_half_even x =
     (let f = \<lfloor>x\<rfloor>; d = x - of_int f
      in if d < 1 / 2 then f else if 1 / 2 < d then f + 1 else if even f then f else f + 1)"

function bit_length :: "nat \<Rightarrow> nat" where
  "bit_length n = (if n = 0 then 0 else Suc (bit_length (n div 2)))"
  by pat_completeness auto
termination
  by (relation "measure (\<lambda>n. n)") auto

declare bit_length.simps [simp del]

text \<open>For \<open>0 < x\<close>: the \<open>e\<close> with \<open>2 ^ e \<le> x < 2 ^ (e + 1)\<close>.\<close>

definition floor_log2 :: "rat \<Rightarrow> int" where
  "floor_log2 x =
     (let (a, b) = quotient_of x;
          d = int (bit_length (nat a)) - int (bit_length (nat b))
      in if 2 powi d \<le> x then d else d - 1)"

definition to_double :: "rat \<Rightarrow> rat" where
  "to_double x =
     (if x = 0 then 0
      else let e = max (floor_log2 \<bar>x\<bar>) (- 1022); u = 2 powi (e - 52)
           in sgn x * of_int (round_half_even (\<bar>x\<bar> / u)) * u)"

text \<open>\<^verbatim>\<open>a / b\<close> on integers: the correctly rounded quotient.\<close>

definition py_truediv :: "int \<Rightarrow> int \<Rightarrow> py_exception + rat" where
  "py_truediv a b =
     (if b = 0 then Inl (Raise ZeroDivisionError ''division by zero'')
      else let r = to_double (of_int a / of_int b)
           in if 2 ^ 1024 \<le> \<bar>r\<bar>
              then Inl (Raise OverflowError ''integer division result too large for a float'')
              else Inr r)"

text \<open>
  \<^verbatim>\<open>round(x, ndigits)\<close> on a float: the float's exact value is rounded half-even to
  \<open>ndigits\<close> decimals, and that decimal is converted back to the nearest float.
\<close>

definition round_float :: "rat \<Rightarrow> nat \<Rightarrow> rat" where
  "round_float x ndigits =
     to_double (of_int (round_half_even (x * 10 ^ ndigits)) / 10 ^ ndigits)"

section \<open>The metric aggregator\<close>

definition gpt_metrics :: "string list" where
  "gpt_metrics = [''gpt_coherence'', ''gpt_relevance'', ''gpt_groundedness'']"

record metric_stats =
  mean_rating :: rat
  pass_count :: nat
  pass_rate :: rat

record agg_state =
  metrics :: "(string \<times> metric_stats) list"
  total_length :: nat
  max_length :: nat
  min_length :: nat
  total_with_citation :: nat

record summary =
  graded :: "(string \<times> metric_stats) list"
  answer_length_total :: nat
  answer_length_mean :: rat
  answer_length_max :: nat
  answer_length_min :: nat
  answer_has_citation_total :: nat
  answer_has_citation_rate :: rat

text \<open>The dict comprehension that starts \<^verbatim>\<open>metrics\<close>, one entry per metric name.\<close>

fun init_metrics ::
  "(string \<times> rat) list \<Rightarrow> string list \<Rightarrow> py_exception + (string \<times> metric_stats) list" where
  "init_metrics ms [] = Inr []"
| "init_metrics ms (name # names) =
     (case map_of ms (''mean_'' @ name) of
        None \<Rightarrow> Inl (Raise KeyError (''mean_'' @ name))
      | Some m \<Rightarrow>
          bindE (init_metrics ms names) (\<lambda>rest.
            Inr ((name, \<lparr>mean_rating = round_float m 2, pass_count = 0, pass_rate = 0\<rparr>) # rest)))"

text \<open>\<^verbatim>\<open>int(x)\<close>: a float is truncated towards zero.\<close>

definition truncate :: "rat \<Rightarrow> int" where
  "truncate q = (if 0 \<le> q then \<lfloor>q\<rfloor> else \<lceil>q\<rceil>)"

fun py_int :: "env \<Rightarrow> json \<Rightarrow> py_exception + int" where
  "py_int en (JInt i) = Inr i"
| "py_int en (JFloat q) = Inr (truncate q)"
| "py_int en (JBool b) = Inr (if b then 1 else 0)"
| "py_int en (JStr s) = int_of_str en s"
| "py_int en v = Inl (Raise TypeError ''int'')"

definition passes_threshold :: "env \<Rightarrow> json \<Rightarrow> py_exception + bool" where
  "passes_threshold en rating = bindE (py_int en rating) (\<lambda>i. Inr (4 \<le> i))"

fun py_len :: "json \<Rightarrow> py_exception + nat" where
  "py_len (JStr s) = Inr (length s)"
| "py_len (JList vs) = Inr (length vs)"
| "py_len (JDict kvs) = Inr (length kvs)"
| "py_len v = Inl (Raise TypeError ''len'')"

text \<open>
  \<^verbatim>\<open>re.search(r"\[[^\]]+\]", s)\<close>: somewhere an opening bracket, then at least one character
  that is not a closing bracket, then a closing bracket.
\<close>

fun has_citation :: "string \<Rightarrow> bool" where
  "has_citation [] = False"
| "has_citation (c # cs) =
     ((c = CHR ''['' \<and> (case cs of [] \<Rightarrow> False | d # ds \<Rightarrow> d \<noteq> CHR '']'' \<and> CHR '']'' \<in> set ds))
      \<or> has_citation cs)"

fun re_search_citation :: "json \<Rightarrow> py_exception + bool" where
  "re_search_citation (JStr s) = Inr (has_citation s)"
| "re_search_citation v = Inl (Raise TypeError ''expected string or bytes-like object'')"

fun stats_of ::
  "(string \<times> metric_stats) list \<Rightarrow> string \<Rightarrow> py_exception + metric_stats" where
  "stats_of [] name = Inl (Raise KeyError name)"
| "stats_of ((k, st) # m) name = (if k = name then Inr st else stats_of m name)"

definition set_stats ::
  "string \<Rightarrow> metric_stats \<Rightarrow> (string \<times> metric_stats) list \<Rightarrow> (string \<times> metric_stats) list" where
  "set_stats name st m = map (\<lambda>(k, v). if k = name then (k, st) else (k, v)) m"

text \<open>The inner loop \<^verbatim>\<open>for metric_name in gpt_metrics\<close> for the record at index \<open>ind\<close>.\<close>

fun update_metrics ::
  "env \<Rightarrow> json \<Rightarrow> nat \<Rightarrow> string list \<Rightarrow> (string \<times> metric_stats) list
    \<Rightarrow> py_exception + (string \<times> metric_stats) list" where
  "update_metrics en r ind [] m = Inr m"
| "update_metrics en r ind (name # names) m =
     bindE (getitem r name) (\<lambda>rating.
     bindE (passes_threshold en rating) (\<lambda>passes.
     bindE (stats_of m name) (\<lambda>st.
     let st1 = (if passes then st\<lparr>pass_count := pass_count st + 1\<rparr> else st) in
     bindE (py_truediv (int (pass_count st1)) (int ind + 1)) (\<lambda>q.
     update_metrics en r ind names (set_stats name (st1\<lparr>pass_rate := round_float q 2\<rparr>) m)))))"

text \<open>The body of the outer loop for one rated record.\<close>

definition aggregate_step :: "env \<Rightarrow> nat \<Rightarrow> json \<Rightarrow> agg_state \<Rightarrow> py_exception + agg_state" where
  "aggregate_step en ind r st =
     bindE (getitem r ''answer'') (\<lambda>a.
     bindE (py_len a) (\<lambda>n.
     bindE (re_search_citation a) (\<lambda>cited.
     bindE (update_metrics en r ind gpt_metrics (metrics st)) (\<lambda>m.
     Inr \<lparr>metrics = m,
          total_length = total_length st + n,
          max_length = max (max_length st) n,
          min_length = min (min_length st) n,
          total_with_citation = total_with_citation st + (if cited then 1 else 0)\<rparr>))))"

fun aggregate_loop ::
  "env \<Rightarrow> nat \<Rightarrow> json list \<Rightarrow> agg_state \<Rightarrow> py_exception + agg_state" where
  "aggregate_loop en ind [] st = Inr st"
| "aggregate_loop en ind (r # rs) st =
     bindE (aggregate_step en ind r st) (aggregate_loop en (Suc ind) rs)"

text \<open>Lines 116 to 150 of \<^verbatim>\<open>run_evaluation\<close>: from the rated records to the metrics.\<close>

definition aggregate ::
  "env \<Rightarrow> (string \<times> rat) list \<Rightarrow> json list \<Rightarrow> py_exception + summary" where
  "aggregate en means questions_with_ratings =
     bindE (init_metrics means gpt_metrics) (\<lambda>m0.
     bindE (aggregate_loop en 0 questions_with_ratings
              \<lparr>metrics = m0, total_length = 0, max_length = 0, min_length = 9999999999,
               total_with_citation = 0\<rparr>) (\<lambda>st.
     bindE (py_truediv (int (total_length st)) (int (length questions_with_ratings))) (\<lambda>mean.
     bindE (py_truediv (int (total_with_citation st)) (int (length questions_with_ratings)))
       (\<lambda>rate.
     Inr \<lparr>graded = metrics st,
          answer_length_total = total_length st,
          answer_length_mean = round_float mean 2,
          answer_length_max = max_length st,
          answer_length_min = min_length st,
          answer_has_citation_total = total_with_citation st,
          answer_has_citation_rate = round_float rate 2\<rparr>))))"

definition stats_json :: "metric_stats \<Rightarrow> json" where
  "stats_json st =
     JDict [(''mean_rating'', JFloat (mean_rating st)),
            (''pass_count'', JInt (int (pass_count st))),
            (''pass_rate'', JFloat (pass_rate st))]"

definition summary_json :: "summary \<Rightarrow> json" where
  "summary_json s =
     JDict (map (\<lambda>(name, st). (name, stats_json st)) (graded s) @
       [(''answer_length'',
           JDict [(''total'', JInt (int (answer_length_total s))),
                  (''mean'', JFloat (answer_length_mean s)),
                  (''max'', JInt (int (answer_length_max s))),
                  (''min'', JInt (int (answer_length_min s)))]),
        (''answer_has_citation'',
           JDict [(''total'', JInt (int (answer_has_citation_total s))),
                  (''rate'', JFloat (answer_has_citation_rate s))])])"

section \<open>The dataset loader\<close>

text \<open>\<^verbatim>\<open>f.readlines()\<close>: the text cut after every newline, the newline kept.\<close>

fun split_lines :: "string \<Rightarrow> string \<Rightarrow> string list" where
  "split_lines cur [] = (if cur = [] then [] else [cur])"
| "split_lines cur (c # cs) =
     (if c = newline then (cur @ [c]) # split_lines [] cs else split_lines (cur @ [c]) cs)"

definition readlines :: "string \<Rightarrow> string list" where
  "readlines text = split_lines [] text"

text \<open>A list comprehension over a call that may raise: the first exception ends it.\<close>

fun map_raising :: "('a \<Rightarrow> py_exception + 'b) \<Rightarrow> 'a list \<Rightarrow> py_exception + 'b list" where
  "map_raising f [] = Inr []"
| "map_raising f (x # xs) =
     (case f x of
        Inl e \<Rightarrow> Inl e
      | Inr y \<Rightarrow> (case map_raising f xs of Inl e \<Rightarrow> Inl e | Inr ys \<Rightarrow> Inr (y # ys)))"

definition load_jsonl :: "env \<Rightarrow> string \<Rightarrow> json list prog" where
  "load_jsonl en path =
     bindP (open_read en path) (\<lambda>text. liftP (map_raising (json_loads en) (readlines text)))"

section \<open>The run orchestrator\<close>

definition probe_question :: string where
  "probe_question = ''What information is in your knowledge base?''"

text \<open>\<^verbatim>\<open>xs[:n]\<close>: the first \<open>n\<close> elements, or all but the last \<open>-n\<close> when \<open>n\<close> is negative.\<close>

definition slice_to :: "'a list \<Rightarrow> int \<Rightarrow> 'a list" where
  "slice_to xs n = (if 0 \<le> n then take (nat n) xs else take (length xs - nat (- n)) xs)"

text \<open>\<^verbatim>\<open>if num_questions:\<close> is false for \<^verbatim>\<open>None\<close> and for 0.\<close>

definition limit_questions :: "int option \<Rightarrow> 'a list \<Rightarrow> 'a list" where
  "limit_questions num_questions testdata =
     (case num_questions of
        None \<Rightarrow> testdata
      | Some n \<Rightarrow> if n \<noteq> 0 then slice_to testdata n else testdata)"

text \<open>
  \<^verbatim>\<open>truncate_for_log(s)\<close> needs \<^verbatim>\<open>len(s)\<close>, and for 30 or more elements a slice of \<open>s\<close>
  that can be added to a string.
\<close>

fun truncate_for_log :: "json \<Rightarrow> py_exception + json" where
  "truncate_for_log (JStr s) = Inr (JStr (if length s < 30 then s else take 30 s @ ''...''))"
| "truncate_for_log (JList vs) =
     (if length vs < 30 then Inr (JList vs) else Inl (Raise TypeError ''concatenate''))"
| "truncate_for_log (JDict kvs) =
     (if length kvs < 30 then Inr (JDict kvs) else Inl (Raise TypeError ''slice''))"
| "truncate_for_log v = Inl (Raise TypeError ''len'')"

text \<open>The body of the \<^verbatim>\<open>try\<close> in \<^verbatim>\<open>run_evaluation\<close>: the probe, then the log line.\<close>

definition health_check :: "env \<Rightarrow> json \<Rightarrow> json \<Rightarrow> unit prog" where
  "health_check en target_url target_parameters =
     bindP (send_question_to_target en probe_question target_url target_parameters True)
       (\<lambda>target_data. liftP (
          bindE (truncate_for_log (JStr (question target_data))) (\<lambda>_.
          bindE (truncate_for_log (answer target_data)) (\<lambda>_.
          bindE (truncate_for_log (JStr (context_str target_data))) (\<lambda>_. Inr ())))))"

text \<open>
  The grading call. Its target is \<^verbatim>\<open>wrap_target\<close>: the question sent with
  \<^verbatim>\<open>raise_error\<close> left false; the requests it makes are the grading call's, not entries
  of the trace.
\<close>

definition wrap_target ::
  "env \<Rightarrow> json \<Rightarrow> json \<Rightarrow> world \<Rightarrow> string \<Rightarrow> py_exception + target_response" where
  "wrap_target en target_url target_parameters w q =
     fst (send_question_to_target en q target_url target_parameters False w)"

definition call_evaluate ::
  "env \<Rightarrow> json list \<Rightarrow> json \<Rightarrow> string \<Rightarrow> json \<Rightarrow> json \<Rightarrow> eval_result prog" where
  "call_evaluate en testdata openai_config results_dir target_url target_parameters w =
     (let w1 = w\<lparr>trace := trace w @ [GradingCall testdata results_dir]\<rparr> in
      case evaluate en (wrap_target en target_url target_parameters w1) testdata openai_config
             results_dir (files w1) of
        (r, fs) \<Rightarrow> (r, w1\<lparr>files := fs\<rparr>))"

definition first_artifact :: "eval_result \<Rightarrow> py_exception + string" where
  "first_artifact results =
     (case artifacts results of
        [] \<Rightarrow> Inl (Raise IndexError ''list index out of range'')
      | (name, v) # rest \<Rightarrow> Inr name)"

definition num_questions_json :: "int option \<Rightarrow> json" where
  "num_questions_json num_questions = (case num_questions of None \<Rightarrow> JNull | Some n \<Rightarrow> JInt n)"

text \<open>Lines 87 to 167 of \<^verbatim>\<open>run_evaluation\<close>: what follows a health check that passed.\<close>

definition grade_and_report ::
  "env \<Rightarrow> json \<Rightarrow> string \<Rightarrow> string \<Rightarrow> json \<Rightarrow> json \<Rightarrow> int option \<Rightarrow> json list \<Rightarrow> bool prog"
where
  "grade_and_report en openai_config testdata_path results_dir target_url target_parameters
     num_questions testdata =
     bindP (call_evaluate en testdata openai_config results_dir target_url target_parameters)
       (\<lambda>results.
     bindP (liftP (first_artifact results)) (\<lambda>eval_results_filename.
     bindP (load_jsonl en (joinpath results_dir eval_results_filename))
       (\<lambda>questions_with_ratings.
     bindP (liftP (aggregate en (metrics_summary results) questions_with_ratings)) (\<lambda>metrics.
     bindP (open_w en (joinpath results_dir ''summary.json'')) (\<lambda>_.
     bindP (write_all en (joinpath results_dir ''summary.json'')
              (json_dumps en (summary_json metrics))) (\<lambda>_.
     bindP (open_w en (joinpath results_dir ''evaluate_parameters.json'')) (\<lambda>_.
     bindP (liftP (getitem openai_config ''model'')) (\<lambda>model.
     bindP (now en) (\<lambda>t.
     bindP (write_all en (joinpath results_dir ''evaluate_parameters.json'')
              (json_dumps en
                 (JDict [(''evaluation_gpt_model'', model),
                         (''evaluation_timestamp'', JInt t),
                         (''testdata_path'', JStr testdata_path),
                         (''target_url'', target_url),
                         (''target_parameters'', target_parameters),
                         (''num_questions'', num_questions_json num_questions)]))) (\<lambda>_.
     returnP True))))))))))"

definition run_evaluation ::
  "env \<Rightarrow> json \<Rightarrow> string \<Rightarrow> string \<Rightarrow> json \<Rightarrow> json \<Rightarrow> int option \<Rightarrow> bool prog" where
  "run_evaluation en openai_config testdata_path results_dir target_url target_parameters
     num_questions =
     bindP (load_jsonl en testdata_path) (\<lambda>testdata0.
       let testdata = limit_questions num_questions testdata0 in
       (\<lambda>w. case health_check en target_url target_parameters w of
               (Inl e, w') \<Rightarrow> (Inr False, w')
             | (Inr u, w') \<Rightarrow>
                 grade_and_report en openai_config testdata_path results_dir target_url
                   target_parameters num_questions testdata w'))"

text \<open>A path must be a string: \<^verbatim>\<open>Path(v)\<close> and \<^verbatim>\<open>working_dir / v\<close> raise otherwise.\<close>

fun as_path :: "json \<Rightarrow> py_exception + string" where
  "as_path (JStr s) = Inr s"
| "as_path v = Inl (Raise TypeError ''path'')"

text \<open>\<^verbatim>\<open>config.get("target_parameters", {})\<close> on a dict.\<close>

fun get_or_empty :: "json \<Rightarrow> string \<Rightarrow> json" where
  "get_or_empty (JDict kvs) k = (case lookup kvs k of None \<Rightarrow> JDict [] | Some v \<Rightarrow> v)"
| "get_or_empty v k = JDict []"

text \<open>The \<^verbatim>\<open>if evaluation_run_complete\<close> branch: the configuration file is copied.\<close>

definition save_config :: "env \<Rightarrow> string \<Rightarrow> string \<Rightarrow> unit prog" where
  "save_config en config_path results_dir =
     bindP (open_r en config_path) (\<lambda>_.
     bindP (open_w en (joinpath results_dir ''config.json'')) (\<lambda>_.
     bindP (read_all en config_path) (\<lambda>text.
     write_all en (joinpath results_dir ''config.json'') text)))"

text \<open>
  The arguments of the call of \<^verbatim>\<open>run_evaluation\<close>, evaluated in the order they are
  written, and the call.
\<close>

definition evaluate_config ::
  "env \<Rightarrow> string \<Rightarrow> json \<Rightarrow> int option \<Rightarrow> (string \<times> bool) prog" where
  "evaluate_config en working_dir config num_questions =
     bindP (liftP (bindE (getitem config ''results_dir'') as_path)) (\<lambda>rd.
     bindP (liftP (get_openai_config en)) (\<lambda>openai_config.
     bindP (liftP (bindE (getitem config ''testdata_path'') as_path)) (\<lambda>tp.
     bindP (liftP (getitem config ''target_url'')) (\<lambda>target_url.
     bindP (run_evaluation en openai_config (joinpath working_dir tp) (joinpath working_dir rd)
              target_url (get_or_empty config ''target_parameters'') num_questions)
       (\<lambda>evaluation_run_complete.
     returnP (joinpath working_dir rd, evaluation_run_complete))))))"

definition run_evaluate_from_config :: "env \<Rightarrow> string \<Rightarrow> string \<Rightarrow> int option \<Rightarrow> unit prog" where
  "run_evaluate_from_config en working_dir config_path num_questions =
     bindP (open_read en (joinpath working_dir config_path)) (\<lambda>text.
     bindP (liftP (json_loads en text)) (\<lambda>config0.
     bindP (process_config en config0) (\<lambda>config.
     bindP (evaluate_config en working_dir config num_questions)
       (\<lambda>(results_dir, evaluation_run_complete).
     if evaluation_run_complete
     then save_config en (joinpath working_dir config_path) results_dir
     else returnP ()))))"

section \<open>Mock surroundings for tests\<close>

text \<open>
  A mock target that always gives the same reply, a \<^verbatim>\<open>json.loads\<close> that is a lookup table,
  and a grading call that writes one artifact line per question.
\<close>

definition mock_env :: "http_reply \<Rightarrow> (string \<times> json) list \<Rightarrow> env" where
  "mock_env reply table =
     \<lparr>clock = (\<lambda>n. 1700000000 + int n),
      post = (\<lambda>url body. reply),
      json_loads = (\<lambda>s. case map_of table s of
                            None \<Rightarrow> Inl (Raise JSONDecodeError ''Expecting value'')
                          | Some v \<Rightarrow> Inr v),
      json_dumps = (\<lambda>v. ''{}''),
      py_repr = (\<lambda>v. ''{...}''),
      int_of_str = (\<lambda>s. Inl (Raise ValueError ''invalid literal for int()'')),
      evaluate = (\<lambda>target data config out fs.
         (Inr \<lparr>metrics_summary = [(''mean_gpt_coherence'', 4), (''mean_gpt_relevance'', 4),
                                   (''mean_gpt_groundedness'', 4)],
                artifacts = [(''eval_results.jsonl'', ''eval_results.jsonl'')]\<rparr>,
          fs(joinpath out ''eval_results.jsonl'' \<mapsto> concat (map (\<lambda>d. ''r'' @ [newline]) data)))),
      get_openai_config = Inr (JDict [(''model'', JStr ''gpt-4'')]),
      locate = (\<lambda>p. p)\<rparr>"

definition empty_world :: world where
  "empty_world = \<lparr>files = (\<lambda>p. None), ticks = 0, trace = []\<rparr>"

definition hello_reply :: http_reply where
  "hello_reply =
     JsonBody (JDict [(''choices'',
       JList [JDict [(''message'', JDict [(''content'', JStr ''hello'')]),
                     (''context'',
                        JDict [(''data_points'',
                          JDict [(''text'', JList [JStr ''a'', JStr ''b''])])])]])])"

definition foo_bar_reply :: http_reply where
  "foo_bar_reply = JsonBody (JDict [(''foo'', JStr ''bar'')])"

text \<open>A working directory with a two-line dataset and a run configuration.\<close>

definition qa_table :: "(string \<times> json) list" where
  "qa_table =
     [(''q1'' @ [newline], JDict [(''question'', JStr ''one'')]),
      (''q2'' @ [newline], JDict [(''question'', JStr ''two'')]),
      (''r'' @ [newline],
         JDict [(''answer'', JStr ''hello [a]''), (''gpt_coherence'', JInt 5),
                (''gpt_relevance'', JInt 3), (''gpt_groundedness'', JFloat (9 / 2))]),
      (''cfg'',
         JDict [(''results_dir'', JStr ''out''), (''testdata_path'', JStr ''qa.jsonl''),
                (''target_url'', JStr ''http://target/chat'')])]"

definition qa_world :: world where
  "qa_world =
     \<lparr>files = [''/w/qa.jsonl'' \<mapsto> ''q1'' @ [newline] @ ''q2'' @ [newline],
               ''/w/config.json'' \<mapsto> ''cfg''],
      ticks = 0, trace = []\<rparr>"

definition qa_data :: "json list" where
  "qa_data = [JDict [(''question'', JStr ''one'')], JDict [(''question'', JStr ''two'')]]"

definition qa_config :: json where
  "qa_config =
     JDict [(''results_dir'', JStr ''out''), (''testdata_path'', JStr ''qa.jsonl''),
            (''target_url'', JStr ''http://target/chat'')]"


section \<open>Properties of the target invoker\<close>

lemma getitem_Inr: "getitem v k = Inr x \<Longrightarrow> \<exists>kvs. v = JDict kvs \<and> lookup kvs k = Some x"
  by (cases v) (auto split: option.splits)

lemma getitem0_Inr_dict:
  "getitem0 v = Inr (JDict d) \<Longrightarrow> \<exists>others. v = JList (JDict d # others)"
  by (cases v rule: getitem0.cases) auto

lemma bindE_Inr: "bindE r f = Inr y \<Longrightarrow> \<exists>x. r = Inr x \<and> f x = Inr y"
  by (cases r) (auto simp: bindE_def)

lemma extract_answer_context_Inr:
  assumes "extract_answer_context r = Inr (a, c)"
  shows "\<exists>body choice others message ctx dp t.
           r = JDict body \<and> lookup body ''choices'' = Some (JList (JDict choice # others))
         \<and> lookup choice ''message'' = Some (JDict message) \<and> lookup message ''content'' = Some a
         \<and> lookup choice ''context'' = Some (JDict ctx)
         \<and> lookup ctx ''data_points'' = Some (JDict dp)
         \<and> lookup dp ''text'' = Some t \<and> join_value [newline, newline] t = Inr c"
proof -
  from assms obtain choices choice message ctx dp t where
    steps: "getitem r ''choices'' = Inr choices" "getitem0 choices = Inr choice"
      "getitem choice ''message'' = Inr message" "getitem message ''content'' = Inr a"
      "getitem choice ''context'' = Inr ctx" "getitem ctx ''data_points'' = Inr dp"
      "getitem dp ''text'' = Inr t" "join_value [newline, newline] t = Inr c"
    unfolding extract_answer_context_def by (fastforce dest!: bindE_Inr)
  from steps(3) obtain chd where "choice = JDict chd" "lookup chd ''message'' = Some message"
    by (auto dest: getitem_Inr)
  moreover from steps(2) this(1) obtain others where "choices = JList (JDict chd # others)"
    by (auto dest: getitem0_Inr_dict)
  moreover from steps(1) obtain body where "r = JDict body" "lookup body ''choices'' = Some choices"
    by (auto dest: getitem_Inr)
  moreover from steps(4) obtain md where "message = JDict md" "lookup md ''content'' = Some a"
    by (auto dest: getitem_Inr)
  moreover from steps(5) calculation(1) have "lookup chd ''context'' = Some ctx"
    by (auto split: option.splits)
  moreover from steps(6) obtain cd where "ctx = JDict cd" "lookup cd ''data_points'' = Some dp"
    by (auto dest: getitem_Inr)
  moreover from steps(7) obtain dd where "dp = JDict dd" "lookup dd ''text'' = Some t"
    by (auto dest: getitem_Inr)
  ultimately show ?thesis using steps(8) by auto
qed

lemma all_strs_map_JStr: "all_strs (map JStr ss) = Some ss"
  by (induction ss) simp_all

text \<open>
  Claim C3. When the reply is a JSON body with \<^verbatim>\<open>choices[0].message.content = a\<close> and
  \<^verbatim>\<open>choices[0].context.data_points.text\<close> a list of strings, the invoker returns the
  question, the answer \<open>a\<close> and the strings joined by two newlines, whatever
  \<^verbatim>\<open>raise_error\<close> is; the mock reply with content "hello" and text ["a", "b"] gives
  answer "hello" and context "a", two newlines, "b".
\<close>

theorem send_question_to_target_expected_shape:
  assumes "post en target_url (request_body q parameters) = JsonBody (JDict body)"
    and "lookup body ''choices'' = Some (JList (JDict choice # others))"
    and "lookup choice ''message'' = Some (JDict message)"
    and "lookup message ''content'' = Some a"
    and "lookup choice ''context'' = Some (JDict ctx)"
    and "lookup ctx ''data_points'' = Some (JDict dp)"
    and "lookup dp ''text'' = Some (JList (map JStr ss))"
  shows "send_question_to_target en q target_url parameters raise_error w =
           (Inr \<lparr>question = q, answer = a, context_str = join [newline, newline] ss\<rparr>,
            w\<lparr>trace := trace w @ [HttpPost target_url (request_body q parameters)]\<rparr>)"
proof -
  have "extract_answer_context (JDict body) = Inr (a, join [newline, newline] ss)"
    using assms(2-7) by (simp add: extract_answer_context_def bindE_def all_strs_map_JStr)
  then have "ask_target en q target_url parameters =
      Inr \<lparr>question = q, answer = a, context_str = join [newline, newline] ss\<rparr>"
    using assms(1) by (simp add: ask_target_def)
  then show ?thesis
    by (simp add: send_question_to_target_def bindP_def log_event_def returnP_def)
qed

theorem send_question_to_target_expected_shape_witness:
  "send_question_to_target (mock_env hello_reply []) ''Q'' (JStr ''http://target/chat'') (JDict [])
     False empty_world =
     (Inr \<lparr>question = ''Q'', answer = JStr ''hello'',
           context_str = [CHR ''a'', newline, newline, CHR ''b'']\<rparr>,
      empty_world\<lparr>trace := [HttpPost (JStr ''http://target/chat'') (request_body ''Q'' (JDict []))]\<rparr>)"
  using send_question_to_target_expected_shape
    [of "mock_env hello_reply []" "JStr ''http://target/chat''" "''Q''" "JDict []"
        "[(''choices'',
       JList [JDict [(''message'', JDict [(''content'', JStr ''hello'')]),
                     (''context'',
                        JDict [(''data_points'',
                          JDict [(''text'', JList [JStr ''a'', JStr ''b''])])])]])]"
        "[(''message'', JDict [(''content'', JStr ''hello'')]),
                     (''context'',
                        JDict [(''data_points'',
                          JDict [(''text'', JList [JStr ''a'', JStr ''b''])])])]"
        "[]" "[(''content'', JStr ''hello'')]" "JStr ''hello''"
        "[(''data_points'', JDict [(''text'', JList [JStr ''a'', JStr ''b''])])]"
        "[(''text'', JList [JStr ''a'', JStr ''b''])]" "[''a'', ''b'']" False empty_world]
  by (simp add: mock_env_def hello_reply_def empty_world_def)

text \<open>
  Claim C4. Whenever the reply does not parse into the expected shape (the request
  raises, the body is not JSON, or the body lacks \<^verbatim>\<open>choices[0].message.content\<close> or a
  joinable \<^verbatim>\<open>choices[0].context.data_points.text\<close>), the invoker raises when
  \<^verbatim>\<open>raise_error\<close> is true, and otherwise returns the question with the exception's string
  as both answer and context.
\<close>

theorem send_question_to_target_mismatch:
  assumes "\<not> (\<exists>body choice others message a ctx dp t c.
             post en target_url (request_body q parameters) = JsonBody (JDict body)
           \<and> lookup body ''choices'' = Some (JList (JDict choice # others))
           \<and> lookup choice ''message'' = Some (JDict message)
           \<and> lookup message ''content'' = Some a
           \<and> lookup choice ''context'' = Some (JDict ctx)
           \<and> lookup ctx ''data_points'' = Some (JDict dp)
           \<and> lookup dp ''text'' = Some t \<and> join_value [newline, newline] t = Inr c)"
  shows "\<exists>e. send_question_to_target en q target_url parameters True w =
               (Inl e, w\<lparr>trace := trace w @ [HttpPost target_url (request_body q parameters)]\<rparr>)
           \<and> send_question_to_target en q target_url parameters False w =
               (Inr \<lparr>question = q, answer = JStr (str_exc e), context_str = str_exc e\<rparr>,
                w\<lparr>trace := trace w @ [HttpPost target_url (request_body q parameters)]\<rparr>)"
proof -
  have "\<exists>e. ask_target en q target_url parameters = Inl e"
  proof (cases "post en target_url (request_body q parameters)")
    case (RequestFails m)
    then show ?thesis by (simp add: ask_target_def)
  next
    case (BodyNotJson m)
    then show ?thesis by (simp add: ask_target_def)
  next
    case (JsonBody r)
    have "\<exists>e. extract_answer_context r = Inl e"
    proof (cases "extract_answer_context r")
      case (Inl e)
      then show ?thesis by simp
    next
      case (Inr ac)
      obtain a c where "ac = (a, c)" by (cases ac)
      with Inr have "extract_answer_context r = Inr (a, c)" by simp
      from extract_answer_context_Inr[OF this] JsonBody assms show ?thesis by blast
    qed
    with JsonBody show ?thesis by (auto simp: ask_target_def)
  qed
  then obtain e where "ask_target en q target_url parameters = Inl e" ..
  then show ?thesis
    by (simp add: send_question_to_target_def bindP_def log_event_def returnP_def raiseP_def)
qed

theorem send_question_to_target_mismatch_witness:
  "\<exists>e. send_question_to_target (mock_env foo_bar_reply []) ''Q'' (JStr ''http://target/chat'')
          (JDict []) True empty_world =
          (Inl e, empty_world\<lparr>trace :=
             [HttpPost (JStr ''http://target/chat'') (request_body ''Q'' (JDict []))]\<rparr>)
      \<and> send_question_to_target (mock_env foo_bar_reply []) ''Q'' (JStr ''http://target/chat'')
          (JDict []) False empty_world =
          (Inr \<lparr>question = ''Q'', answer = JStr (str_exc e), context_str = str_exc e\<rparr>,
           empty_world\<lparr>trace :=
             [HttpPost (JStr ''http://target/chat'') (request_body ''Q'' (JDict []))]\<rparr>)"
  using send_question_to_target_mismatch
    [of "mock_env foo_bar_reply []" "JStr ''http://target/chat''" "''Q''" "JDict []" empty_world]
  by (simp add: mock_env_def foo_bar_reply_def empty_world_def)

section \<open>Properties of the metric aggregator\<close>

lemma bindE_Inl [simp]: "bindE (Inl e) f = Inl e"
  by (simp add: bindE_def)

lemma bindE_Inr_eq [simp]: "bindE (Inr x) f = f x"
  by (simp add: bindE_def)

text \<open>
  Claim C9. On an empty sequence of rated records the aggregation never returns a
  summary; when the mean of every graded metric is in the metrics summary, it fails with
  the division by zero of the answer-length mean.
\<close>

theorem aggregate_empty_fails: "(\<forall>s. aggregate en means [] \<noteq> Inr s)
  \<and> (set (map (\<lambda>n. ''mean_'' @ n) gpt_metrics) \<subseteq> fst ` set means \<longrightarrow>
       aggregate en means [] = Inl (Raise ZeroDivisionError ''division by zero''))"
proof -
  have z: "py_truediv 0 0 = Inl (Raise ZeroDivisionError ''division by zero'')"
    by (simp add: py_truediv_def)
  have a: "aggregate en means [] =
      (case init_metrics means gpt_metrics of Inl e \<Rightarrow> Inl e
        | Inr m \<Rightarrow> Inl (Raise ZeroDivisionError ''division by zero''))"
    by (simp add: aggregate_def z split: sum.splits)
  have b: "\<And>names. set (map (\<lambda>n. ''mean_'' @ n) names) \<subseteq> fst ` set means
      \<Longrightarrow> \<exists>m. init_metrics means names = Inr m"
  proof -
    fix names
    show "set (map (\<lambda>n. ''mean_'' @ n) names) \<subseteq> fst ` set means
      \<Longrightarrow> \<exists>m. init_metrics means names = Inr m"
    proof (induction names)
      case Nil
      then show ?case by simp
    next
      case (Cons n names)
      then obtain m where m: "init_metrics means names = Inr m" by auto
      from Cons.prems have "''mean_'' @ n \<in> fst ` set means" by simp
      then obtain v where "map_of means (''mean_'' @ n) = Some v"
        by (metis map_of_eq_None_iff not_Some_eq)
      with m show ?case by simp
    qed
  qed
  show ?thesis using a b[of gpt_metrics] by (auto split: sum.splits)
qed


theorem aggregate_empty_fails_witness: "aggregate (mock_env foo_bar_reply [])
     [(''mean_gpt_coherence'', 4), (''mean_gpt_relevance'', 4), (''mean_gpt_groundedness'', 4)] []
   = Inl (Raise ZeroDivisionError ''division by zero'')"
  using aggregate_empty_fails[of "mock_env foo_bar_reply []" "[(''mean_gpt_coherence'', 4), (''mean_gpt_relevance'', 4), (''mean_gpt_groundedness'', 4)]"]
  by (simp add: gpt_metrics_def)

section \<open>Properties of the run orchestrator\<close>

lemma bindP_Inr: "p w = (Inr x, w1) \<Longrightarrow> bindP p f w = f x w1"
  by (simp add: bindP_def)

lemma bindP_Inl: "p w = (Inl e, w1) \<Longrightarrow> bindP p f w = (Inl e, w1)"
  by (simp add: bindP_def)

lemma grows_bindP:
  assumes "\<And>w. \<exists>es. trace (snd (p w)) = trace w @ es"
    and "\<And>x w. \<exists>es. trace (snd (f x w)) = trace w @ es"
  shows "\<exists>es. trace (snd (bindP p f w)) = trace w @ es"
proof -
  obtain r w1 where p: "p w = (r, w1)" by (cases "p w")
  from assms(1)[of w] p obtain es1 where e1: "trace w1 = trace w @ es1" by auto
  show ?thesis
  proof (cases r)
    case (Inl e)
    with p e1 show ?thesis by (simp add: bindP_def)
  next
    case (Inr x)
    from assms(2)[of x w1] obtain es2 where "trace (snd (f x w1)) = trace w1 @ es2" by auto
    with p e1 Inr show ?thesis by (simp add: bindP_def)
  qed
qed

lemma grows_liftP: "\<exists>es. trace (snd (liftP r w)) = trace w @ es"
  by (simp add: liftP_def)

lemma grows_returnP: "\<exists>es. trace (snd (returnP r w)) = trace w @ es"
  by (simp add: returnP_def)

lemma grows_open_r: "\<exists>es. trace (snd (open_r en p w)) = trace w @ es"
  by (simp add: open_r_def split: option.splits)

lemma grows_read_all: "\<exists>es. trace (snd (read_all en p w)) = trace w @ es"
  by (simp add: read_all_def)

lemma grows_open_w: "\<exists>es. trace (snd (open_w en p w)) = trace w @ es"
  by (simp add: open_w_def)

lemma grows_write_all: "\<exists>es. trace (snd (write_all en p t w)) = trace w @ es"
  by (simp add: write_all_def)

lemma grows_now: "\<exists>es. trace (snd (now en w)) = trace w @ es"
  by (simp add: now_def)

lemma grows_load_jsonl: "\<exists>es. trace (snd (load_jsonl en p w)) = trace w @ es"
  unfolding load_jsonl_def open_read_def
  by (intro grows_bindP grows_liftP grows_open_r grows_read_all)

lemma call_evaluate_trace:
  "trace (snd (call_evaluate en testdata oc rd url ps w)) = trace w @ [GradingCall testdata rd]"
  by (simp add: call_evaluate_def Let_def split: prod.splits)

lemma grade_and_report_trace:
  "\<exists>es. trace (snd (grade_and_report en oc tp rd url ps nq testdata w)) =
     trace w @ GradingCall testdata rd # es"
proof -
  let ?k = "\<lambda>results.
     bindP (liftP (first_artifact results)) (\<lambda>eval_results_filename.
     bindP (load_jsonl en (joinpath rd eval_results_filename))
       (\<lambda>questions_with_ratings.
     bindP (liftP (aggregate en (metrics_summary results) questions_with_ratings)) (\<lambda>metrics.
     bindP (open_w en (joinpath rd ''summary.json'')) (\<lambda>_.
     bindP (write_all en (joinpath rd ''summary.json'')
              (json_dumps en (summary_json metrics))) (\<lambda>_.
     bindP (open_w en (joinpath rd ''evaluate_parameters.json'')) (\<lambda>_.
     bindP (liftP (getitem oc ''model'')) (\<lambda>model.
     bindP (now en) (\<lambda>t.
     bindP (write_all en (joinpath rd ''evaluate_parameters.json'')
              (json_dumps en
                 (JDict [(''evaluation_gpt_model'', model),
                         (''evaluation_timestamp'', JInt t),
                         (''testdata_path'', JStr tp),
                         (''target_url'', url),
                         (''target_parameters'', ps),
                         (''num_questions'', num_questions_json nq)]))) (\<lambda>_.
     returnP True)))))))))"
  have k: "\<And>x w. \<exists>es. trace (snd (?k x w)) = trace w @ es"
    by (intro grows_bindP grows_liftP grows_load_jsonl grows_open_w grows_write_all
          grows_now grows_returnP)
  have g: "grade_and_report en oc tp rd url ps nq testdata =
      bindP (call_evaluate en testdata oc rd url ps) ?k"
    by (simp add: grade_and_report_def)
  obtain r w1 where c: "call_evaluate en testdata oc rd url ps w = (r, w1)"
    by (cases "call_evaluate en testdata oc rd url ps w")
  with call_evaluate_trace[of en testdata oc rd url ps w]
  have t1: "trace w1 = trace w @ [GradingCall testdata rd]" by simp
  show ?thesis
  proof (cases r)
    case (Inl e)
    with c t1 show ?thesis unfolding g by (simp add: bindP_def)
  next
    case (Inr x)
    from k[of x w1] obtain es where "trace (snd (?k x w1)) = trace w1 @ es" ..
    with c t1 Inr show ?thesis unfolding g by (simp add: bindP_def)
  qed
qed

lemma load_qa:
  "load_jsonl (mock_env reply qa_table) ''/w/qa.jsonl'' qa_world =
     (Inr qa_data, qa_world\<lparr>trace := [OpenRead ''/w/qa.jsonl'']\<rparr>)"
  by (simp add: load_jsonl_def open_read_def bindP_def open_r_def read_all_def liftP_def
        readlines_def qa_world_def mock_env_def qa_table_def newline_def qa_data_def)

lemma probe_hello:
  "health_check (mock_env hello_reply qa_table) (JStr ''http://target/chat'') (JDict []) w =
     (Inr (), w\<lparr>trace := trace w @ [HttpPost (JStr ''http://target/chat'')
         (request_body probe_question (JDict []))]\<rparr>)"
  by (simp add: health_check_def send_question_to_target_def bindP_def log_event_def
        ask_target_def mock_env_def hello_reply_def extract_answer_context_def bindE_def
        returnP_def liftP_def newline_def)

lemma probe_fails:
  "send_question_to_target (mock_env (RequestFails ''refused'') qa_table) probe_question
      (JStr ''http://target/chat'') (JDict []) True w =
     (Inl (Raise RequestException ''refused''),
      w\<lparr>trace := trace w @ [HttpPost (JStr ''http://target/chat'')
         (request_body probe_question (JDict []))]\<rparr>)"
  by (simp add: send_question_to_target_def bindP_def log_event_def
        ask_target_def mock_env_def raiseP_def)

lemma load_jsonl_world:
  "load_jsonl en p w = (r, w1) \<Longrightarrow> w1 = w\<lparr>trace := trace w @ [OpenRead p]\<rparr>"
  by (auto simp: load_jsonl_def open_read_def bindP_def open_r_def read_all_def liftP_def
        split: option.splits)

lemma send_question_to_target_world:
  "send_question_to_target en q url ps raise_error w = (r, w1) \<Longrightarrow>
     w1 = w\<lparr>trace := trace w @ [HttpPost url (request_body q ps)]\<rparr>"
  by (auto simp: send_question_to_target_def bindP_def log_event_def returnP_def raiseP_def
        split: sum.splits if_splits)

lemma health_check_world:
  "health_check en url ps w = (r, w1) \<Longrightarrow>
     w1 = w\<lparr>trace := trace w @ [HttpPost url (request_body probe_question ps)]\<rparr>"
proof -
  assume h: "health_check en url ps w = (r, w1)"
  obtain r0 w0 where s: "send_question_to_target en probe_question url ps True w = (r0, w0)"
    by (cases "send_question_to_target en probe_question url ps True w")
  from send_question_to_target_world[OF s]
  have w0: "w0 = w\<lparr>trace := trace w @ [HttpPost url (request_body probe_question ps)]\<rparr>" .
  from h s have "w1 = w0"
    by (cases r0) (auto simp: health_check_def bindP_def liftP_def)
  with w0 show ?thesis by simp
qed

lemma health_check_probe_raises:
  "send_question_to_target en probe_question url ps True w = (Inl e, w1) \<Longrightarrow>
     health_check en url ps w = (Inl e, w1)"
  by (simp add: health_check_def bindP_def)

lemma run_evaluation_loaded:
  assumes "load_jsonl en tp w = (Inr data, w1)"
  shows "run_evaluation en oc tp rd url ps nq w =
     (case health_check en url ps w1 of
        (Inl e, w2) \<Rightarrow> (Inr False, w2)
      | (Inr u, w2) \<Rightarrow> grade_and_report en oc tp rd url ps nq (limit_questions nq data) w2)"
  using assms by (simp add: run_evaluation_def bindP_def Let_def)

lemma run_evaluation_trace_prefix:
  assumes "load_jsonl en tp w = (Inr data, w1)"
  shows "\<exists>es. trace (snd (run_evaluation en oc tp rd url ps nq w)) =
           trace w @ OpenRead tp # HttpPost url (request_body probe_question ps) # es"
proof -
  obtain r w2 where h: "health_check en url ps w1 = (r, w2)"
    by (cases "health_check en url ps w1")
  from load_jsonl_world[OF assms] health_check_world[OF h]
  have t2: "trace w2 = trace w @ [OpenRead tp, HttpPost url (request_body probe_question ps)]"
    by simp
  show ?thesis
  proof (cases r)
    case (Inl e)
    with h t2 show ?thesis by (simp add: run_evaluation_loaded[OF assms])
  next
    case (Inr u)
    from grade_and_report_trace[of en oc tp rd url ps nq "limit_questions nq data" w2]
    obtain es where "trace (snd (grade_and_report en oc tp rd url ps nq
        (limit_questions nq data) w2)) = trace w2 @ GradingCall (limit_questions nq data) rd # es"
      ..
    with h t2 Inr show ?thesis by (simp add: run_evaluation_loaded[OF assms])
  qed
qed

text \<open>
  Claim C1, as stated, fails: with a dataset file in place and a target that refuses the
  request, the run opens the dataset file for reading and only then sends the probe.
\<close>

theorem run_evaluation_reads_dataset_before_probe:
  "run_evaluation (mock_env (RequestFails ''refused'') qa_table) (JDict [(''model'', JStr ''gpt-4'')])
     ''/w/qa.jsonl'' ''/w/out'' (JStr ''http://target/chat'') (JDict []) None qa_world =
   (Inr False,
    qa_world\<lparr>trace := [OpenRead ''/w/qa.jsonl'',
       HttpPost (JStr ''http://target/chat'') (request_body probe_question (JDict []))]\<rparr>)"
  by (simp add: run_evaluation_loaded[OF load_qa] health_check_probe_raises[OF probe_fails])

text \<open>
  Claim C10. A question cap of 0 leaves the dataset as it is, like an absent cap, and the
  grading call receives the whole dataset; a positive cap \<open>n\<close> passes the first \<open>n\<close> records.
\<close>

theorem num_questions_zero_keeps_all:
  assumes "load_jsonl en testdata_path w = (Inr data, w1)"
    and "health_check en url ps w1 = (Inr u, w2)"
  shows "limit_questions (Some 0) data = data
     \<and> (\<exists>es. trace (snd (run_evaluation en oc testdata_path rd url ps (Some 0) w)) =
            trace w2 @ GradingCall data rd # es)
     \<and> (\<exists>es. trace (snd (run_evaluation en oc testdata_path rd url ps None w)) =
            trace w2 @ GradingCall data rd # es)
     \<and> (\<forall>n. 0 < n \<longrightarrow> limit_questions (Some n) data = take (nat n) data
            \<and> (\<exists>es. trace (snd (run_evaluation en oc testdata_path rd url ps (Some n) w)) =
                  trace w2 @ GradingCall (take (nat n) data) rd # es))"
proof -
  have r: "\<And>nq. \<exists>es. trace (snd (run_evaluation en oc testdata_path rd url ps nq w)) =
            trace w2 @ GradingCall (limit_questions nq data) rd # es"
    using grade_and_report_trace[of en oc testdata_path rd url ps _ _ w2] assms(2)
    by (simp add: run_evaluation_loaded[OF assms(1)])
  have z: "limit_questions (Some 0) data = data" "limit_questions None data = data"
    by (simp_all add: limit_questions_def)
  have p: "\<And>n. 0 < n \<Longrightarrow> limit_questions (Some n) data = take (nat n) data"
    by (simp add: limit_questions_def slice_to_def)
  have q: "\<And>n. 0 < n \<Longrightarrow>
      \<exists>es. trace (snd (run_evaluation en oc testdata_path rd url ps (Some n) w)) =
                  trace w2 @ GradingCall (take (nat n) data) rd # es"
    using r[of "Some _"] p by metis
  show ?thesis using r[of "Some 0"] r[of None] z p q by simp
qed


theorem num_questions_zero_keeps_all_witness:
  "\<exists>es. trace (snd (run_evaluation (mock_env hello_reply qa_table)
        (JDict [(''model'', JStr ''gpt-4'')]) ''/w/qa.jsonl'' ''/w/out''
        (JStr ''http://target/chat'') (JDict []) (Some 0) qa_world)) =
      [OpenRead ''/w/qa.jsonl'',
       HttpPost (JStr ''http://target/chat'') (request_body probe_question (JDict [])),
       GradingCall qa_data ''/w/out''] @ es"
  using num_questions_zero_keeps_all[OF load_qa probe_hello, of "JDict [(''model'', JStr ''gpt-4'')]" "''/w/out''"]
  by simp

lemma run_evaluate_from_config_stages:
  assumes "open_read en (joinpath wd cp) w = (Inr text, w1)"
    and "json_loads en text = Inr c0"
    and "process_config en c0 w1 = (Inr cfg, w2)"
    and "getitem cfg ''results_dir'' = Inr (JStr rd)"
    and "get_openai_config en = Inr oc"
    and "getitem cfg ''testdata_path'' = Inr (JStr tp)"
    and "getitem cfg ''target_url'' = Inr url"
    and "run_evaluation en oc (joinpath wd tp) (joinpath wd rd) url
           (get_or_empty cfg ''target_parameters'') nq w2 = (r3, w3)"
  shows "run_evaluate_from_config en wd cp nq w =
     (case r3 of
        Inl e \<Rightarrow> (Inl e, w3)
      | Inr b \<Rightarrow> if b then save_config en (joinpath wd cp) (joinpath wd rd) w3 else (Inr (), w3))"
  using assms
  by (simp add: run_evaluate_from_config_def evaluate_config_def bindP_def liftP_def returnP_def
        split: sum.splits)

lemma process_qa_config: "process_config en qa_config w = (Inr qa_config, w)"
  by (simp add: qa_config_def process_str_def TIMESTAMP_def READFILE_def returnP_def bindP_def)

lemma open_qa_config:
  "open_read (mock_env r t) (joinpath ''/w'' ''config.json'') qa_world =
     (Inr ''cfg'', qa_world\<lparr>trace := [OpenRead ''/w/config.json'']\<rparr>)"
  by (simp add: open_read_def open_r_def read_all_def bindP_def joinpath_def path_str_def path_root_def path_parts_def mock_env_def qa_world_def)

text \<open>
  Claim C1, amended. Every run first opens and loads the dataset file. If that raises, the
  run raises with it and no probe is sent. Otherwise the fixed probe question is sent next,
  so the dataset file has been read before the probe; if the probe call raises, no further
  steps run: the run returns false, no file is changed, and the dataset read and the probe
  request are its only events.
\<close>

theorem run_evaluation_probe_after_load:
  "(case load_jsonl en testdata_path w of
      (Inl e, w1) \<Rightarrow>
          run_evaluation en oc testdata_path rd url ps nq w = (Inl e, w1)
        \<and> trace w1 = trace w @ [OpenRead testdata_path] \<and> files w1 = files w
    | (Inr data, w1) \<Rightarrow>
          (\<exists>es. trace (snd (run_evaluation en oc testdata_path rd url ps nq w)) =
             trace w @ OpenRead testdata_path
               # HttpPost url (request_body probe_question ps) # es)
        \<and> (\<forall>e w2. send_question_to_target en probe_question url ps True w1 = (Inl e, w2) \<longrightarrow>
               run_evaluation en oc testdata_path rd url ps nq w = (Inr False, w2)
             \<and> trace w2 = trace w @ [OpenRead testdata_path,
                                       HttpPost url (request_body probe_question ps)]
             \<and> files w2 = files w))"
proof -
  obtain r w1 where l: "load_jsonl en testdata_path w = (r, w1)"
    by (cases "load_jsonl en testdata_path w")
  note lw = load_jsonl_world[OF l]
  show ?thesis
  proof (cases r)
    case (Inl e)
    with l have le: "load_jsonl en testdata_path w = (Inl e, w1)" by simp
    then have "run_evaluation en oc testdata_path rd url ps nq w = (Inl e, w1)"
      by (simp add: run_evaluation_def bindP_def)
    moreover from lw have "trace w1 = trace w @ [OpenRead testdata_path]" "files w1 = files w"
      by simp_all
    ultimately show ?thesis unfolding le prod.case sum.case by (intro conjI)
  next
    case (Inr data)
    with l have ld: "load_jsonl en testdata_path w = (Inr data, w1)" by simp
    have a: "\<exists>es. trace (snd (run_evaluation en oc testdata_path rd url ps nq w)) =
             trace w @ OpenRead testdata_path
               # HttpPost url (request_body probe_question ps) # es"
      using ld by (rule run_evaluation_trace_prefix)
    have b: "\<forall>e w2. send_question_to_target en probe_question url ps True w1 = (Inl e, w2) \<longrightarrow>
               run_evaluation en oc testdata_path rd url ps nq w = (Inr False, w2)
             \<and> trace w2 = trace w @ [OpenRead testdata_path,
                                       HttpPost url (request_body probe_question ps)]
             \<and> files w2 = files w"
    proof (intro allI impI)
      fix e w2
      assume s: "send_question_to_target en probe_question url ps True w1 = (Inl e, w2)"
      from health_check_probe_raises[OF s]
      have r: "run_evaluation en oc testdata_path rd url ps nq w = (Inr False, w2)"
        by (simp add: run_evaluation_loaded[OF ld])
      from lw send_question_to_target_world[OF s]
      have "trace w2 = trace w @ [OpenRead testdata_path,
                                       HttpPost url (request_body probe_question ps)]"
        and "files w2 = files w" by simp_all
      with r show "run_evaluation en oc testdata_path rd url ps nq w = (Inr False, w2)
             \<and> trace w2 = trace w @ [OpenRead testdata_path,
                                       HttpPost url (request_body probe_question ps)]
             \<and> files w2 = files w" by (intro conjI)
    qed
    from a b show ?thesis unfolding ld prod.case sum.case by (rule conjI)
  qed
qed

theorem run_evaluation_probe_after_load_witness:
  "run_evaluation (mock_env (RequestFails ''refused'') qa_table)
     (JDict [(''model'', JStr ''gpt-4'')]) ''/w/qa.jsonl'' ''/w/out''
     (JStr ''http://target/chat'') (JDict []) (Some 1) qa_world =
   (Inr False,
    qa_world\<lparr>trace := [OpenRead ''/w/qa.jsonl'',
       HttpPost (JStr ''http://target/chat'') (request_body probe_question (JDict []))]\<rparr>)"
proof -
  let ?en = "mock_env (RequestFails ''refused'') qa_table"
  let ?w1 = "qa_world\<lparr>trace := [OpenRead ''/w/qa.jsonl'']\<rparr>"
  have l: "load_jsonl ?en ''/w/qa.jsonl'' qa_world = (Inr qa_data, ?w1)"
    by (rule load_qa)
  have p: "send_question_to_target ?en probe_question (JStr ''http://target/chat'') (JDict [])
      True ?w1 =
     (Inl (Raise RequestException ''refused''),
      ?w1\<lparr>trace := trace ?w1 @ [HttpPost (JStr ''http://target/chat'')
         (request_body probe_question (JDict []))]\<rparr>)"
    by (rule probe_fails)
  note t = run_evaluation_probe_after_load[where en = ?en and testdata_path = "''/w/qa.jsonl''"
      and w = qa_world and oc = "JDict [(''model'', JStr ''gpt-4'')]" and rd = "''/w/out''"
      and url = "JStr ''http://target/chat''" and ps = "JDict []" and nq = "Some 1",
      unfolded l prod.case sum.case]
  from t have a: "\<forall>e w2. send_question_to_target ?en probe_question (JStr ''http://target/chat'')
            (JDict []) True ?w1 = (Inl e, w2) \<longrightarrow>
          run_evaluation ?en (JDict [(''model'', JStr ''gpt-4'')]) ''/w/qa.jsonl'' ''/w/out''
            (JStr ''http://target/chat'') (JDict []) (Some 1) qa_world = (Inr False, w2)
        \<and> trace w2 = trace qa_world @ [OpenRead ''/w/qa.jsonl'',
              HttpPost (JStr ''http://target/chat'') (request_body probe_question (JDict []))]
        \<and> files w2 = files qa_world"
    by (rule conjunct2)
  from a[rule_format, OF p]
  have "run_evaluation ?en (JDict [(''model'', JStr ''gpt-4'')]) ''/w/qa.jsonl'' ''/w/out''
            (JStr ''http://target/chat'') (JDict []) (Some 1) qa_world =
        (Inr False, ?w1\<lparr>trace := trace ?w1 @ [HttpPost (JStr ''http://target/chat'')
         (request_body probe_question (JDict []))]\<rparr>)"
    by (rule conjunct1)
  then show ?thesis by simp
qed

end
